theory Spec2Isabelle
  imports Main "HOL-Library.Word"
begin

unbundle bit_operations_syntax

section \<open>Go values used by package pkg\<close>

type_synonym byte = "8 word"

text \<open>Arguments of a format string, as far as the code formats them.\<close>

datatype fmt_arg =
    ArgBytes "byte list"
  | ArgUint64 "64 word"

text \<open>
  Go \<open>error\<close> values. \<open>None :: error option\<close> is the \<open>nil\<close> error. \<open>ErrReload\<close> is the
  package's sentinel, compared with \<open>==\<close> in \<open>BaseConsumer.Init\<close>; \<open>EOF\<close> and
  \<open>ErrUnexpectedEOF\<close> are those of package io; \<open>Errno\<close> is a \<open>syscall.Errno\<close>;
  \<open>ErrorString\<close> is \<open>errors.New\<close>; \<open>Errorf\<close> is \<open>xerrors.Errorf\<close> with its format, its
  plain arguments and the error it wraps with \<open>%w\<close>, if any.
\<close>

datatype error =
    ErrReload
  | EOF
  | ErrUnexpectedEOF
  | Errno nat
  | ErrorString string
  | Errorf string "fmt_arg list" "error option"

text \<open>A value stored in a \<open>sync.Map\<close> (an \<open>interface{}\<close>): the code stores strings and
  \<open>uint64\<close> keys, and reads back \<open>nil\<close> from a failed \<open>Load\<close>.\<close>

datatype iface =
    INil
  | IString string
  | IUint64 "64 word"

text \<open>Lines handed to the zerolog logger at error level by \<open>Msgf\<close>. An event that is built
  but never sent (\<open>f.Error().Err(err)\<close> with no \<open>Msg\<close>) writes nothing and is no entry.
  Debug-level tracing is left out.\<close>

datatype log_entry = LogError string "fmt_arg list"

section \<open>fim.go: constants and types\<close>

definition taskComLen :: nat where
  "taskComLen = 16"

definition chanSize :: nat where
  "chanSize = 10"

definition bpfAny :: "64 word" where
  "bpfAny = 0"

text \<open>\<open>Mode\<close> is an \<open>int32\<close>: a 32-bit word read in two's complement by \<open>sint\<close>. \<open>Com\<close> is a
  \<open>[taskComLen]byte\<close>: a byte list, of length \<open>taskComLen\<close> in every value of the Go type
  (\<open>rawEvent_ok\<close>).\<close>

record rawEvent =
  Mode :: "32 word"
  PID :: "32 word"
  UID :: "32 word"
  Size :: "32 word"
  Inode :: "64 word"
  Device :: "64 word"
  Com :: "byte list"

definition rawEvent_ok :: "rawEvent \<Rightarrow> bool" where
  "rawEvent_ok e = (length (rawEvent.Com e) = taskComLen)"

record Event =
  Mode :: "32 word"
  PID :: "32 word"
  UID :: "32 word"
  Size :: "32 word"
  Inode :: "64 word"
  Device :: "64 word"
  Com :: string
  Path :: string

text \<open>The fields of \<open>syscall.Stat_t\<close> that identify a file.\<close>

record Stat_t =
  Dev :: "64 word"
  Ino :: "64 word"

text \<open>Calls made on the kernel's rules table through the loaded module.\<close>

datatype kcall =
    KUpdate "64 word" int "64 word"
  | KDelete "64 word"

text \<open>
  The collaborators of \<open>FIM\<close>, taken as parameters: \<open>Stat\<close> is \<open>syscall.Stat\<close>;
  \<open>UpdateElement\<close> and \<open>DeleteElement\<close> are the module's operations on the rules table,
  whose kernel-side state has the type \<open>'k\<close> (key, value and flags, resp. key; the result
  is the error and the table afterwards); \<open>ScanFile\<close> is \<open>os.Open\<close> followed by a
  \<open>bufio.Scanner\<close> over the file: the open error, or the lines the scanner yields.
\<close>

record 'k os =
  Stat :: "string \<Rightarrow> error + Stat_t"
  UpdateElement :: "64 word \<Rightarrow> int \<Rightarrow> 64 word \<Rightarrow> 'k \<Rightarrow> error option \<times> 'k"
  DeleteElement :: "64 word \<Rightarrow> 'k \<Rightarrow> error option \<times> 'k"
  ScanFile :: "string \<Rightarrow> error + string list"

text \<open>
  The state of a \<open>FIM\<close>: the two \<open>sync.Map\<close>s, the kernel's rules table, what has been
  sent on the \<open>Events\<close> and \<open>Errors\<close> channels and not yet received, the lines logged, and
  the calls made on the rules table so far. A send on \<open>Events\<close> blocks while the channel
  is full and then delivers; the list is the sequence of events sent.
\<close>

record 'k FIM =
  mapping :: "iface \<rightharpoonup> iface"
  reverse :: "iface \<rightharpoonup> iface"
  RulesTable :: 'k
  Events :: "Event list"
  Errors :: "error list"
  Logger :: "log_entry list"
  Calls :: "kcall list"

section \<open>Raw event codec\<close>

text \<open>\<open>binary.LittleEndian\<close>: the n low bytes of a word, lowest first, and back.\<close>

fun le_bytes :: "nat \<Rightarrow> 'a::len word \<Rightarrow> byte list" where
  "le_bytes 0 w = []"
| "le_bytes (Suc n) w = ucast w # le_bytes n (drop_bit 8 w)"

fun le_word :: "byte list \<Rightarrow> 'a::len word" where
  "le_word [] = 0"
| "le_word (b # bs) = ucast b OR push_bit 8 (le_word bs)"

text \<open>\<open>Encode\<close> at a \<open>rawEvent\<close>: \<open>binary.Write\<close> writes the fields in declaration order,
  each in its fixed size, into a fresh buffer; no write to a \<open>bytes.Buffer\<close> fails.\<close>

definition Encode :: "rawEvent \<Rightarrow> byte list \<times> error option" where
  "Encode i =
     (le_bytes 4 (rawEvent.Mode i) @ le_bytes 4 (rawEvent.PID i) @
      le_bytes 4 (rawEvent.UID i) @ le_bytes 4 (rawEvent.Size i) @
      le_bytes 8 (rawEvent.Inode i) @ le_bytes 8 (rawEvent.Device i) @
      rawEvent.Com i, None)"

text \<open>\<open>binary.Read\<close> into a \<open>rawEvent\<close>, as \<open>FIM.start\<close> calls it: it reads the 48 bytes of
  the struct from the buffer (\<open>io.ReadFull\<close>: \<open>EOF\<close> on an empty buffer,
  \<open>ErrUnexpectedEOF\<close> on a short one) and ignores what follows them.\<close>

definition decode_rawEvent :: "byte list \<Rightarrow> error + rawEvent" where
  "decode_rawEvent data =
     (if data = [] then Inl EOF
      else if length data < 48 then Inl ErrUnexpectedEOF
      else Inr \<lparr>rawEvent.Mode = le_word (take 4 data),
                PID = le_word (take 4 (drop 4 data)),
                UID = le_word (take 4 (drop 8 data)),
                Size = le_word (take 4 (drop 12 data)),
                Inode = le_word (take 8 (drop 16 data)),
                Device = le_word (take 8 (drop 24 data)),
                Com = take taskComLen (drop 32 data)\<rparr>)"

section \<open>Watch table\<close>

definition NewKey :: "(string \<Rightarrow> error + Stat_t) \<Rightarrow> string \<Rightarrow> 64 word \<times> error option" where
  "NewKey stat name =
     (case stat name of
        Inl err \<Rightarrow> (0, Some err)
      | Inr fstat \<Rightarrow> (Ino fstat, None))"

definition log_error :: "string \<Rightarrow> fmt_arg list \<Rightarrow> 'k FIM \<Rightarrow> 'k FIM" where
  "log_error msg args f = f\<lparr>Logger := Logger f @ [LogError msg args]\<rparr>"

definition kernel_call :: "kcall \<Rightarrow> 'k \<Rightarrow> 'k FIM \<Rightarrow> 'k FIM" where
  "kernel_call c k f = f\<lparr>RulesTable := k, Calls := Calls f @ [c]\<rparr>"

definition Add :: "'k os \<Rightarrow> string \<Rightarrow> 'k FIM \<Rightarrow> error option \<times> 'k FIM" where
  "Add os name f =
     (case NewKey (Stat os) name of
        (key, Some err) \<Rightarrow> (Some err, f)
      | (key, None) \<Rightarrow>
          (case UpdateElement os key 1 bpfAny (RulesTable f) of
             (Some err, k) \<Rightarrow> (Some err, kernel_call (KUpdate key 1 bpfAny) k f)
           | (None, k) \<Rightarrow>
               (let f1 = kernel_call (KUpdate key 1 bpfAny) k f;
                    f2 = f1\<lparr>mapping := (mapping f1)(IUint64 key \<mapsto> IString name)\<rparr>;
                    f3 = f2\<lparr>reverse := (reverse f2)(IString name \<mapsto> IUint64 key)\<rparr>
                in (None, f3))))"

definition Remove :: "'k os \<Rightarrow> string \<Rightarrow> 'k FIM \<Rightarrow> error option \<times> 'k FIM" where
  "Remove os name f =
     (case reverse f (IString name) of
        None \<Rightarrow> (Some (ErrorString ''error getting key''), f)
      | Some rawKey \<Rightarrow>
          (case rawKey of
             IUint64 uintKey \<Rightarrow>
               (case DeleteElement os uintKey (RulesTable f) of
                  (Some err, k) \<Rightarrow> (Some err, kernel_call (KDelete uintKey) k f)
                | (None, k) \<Rightarrow>
                    (let f1 = kernel_call (KDelete uintKey) k f;
                         (ident, f2) =
                           (case reverse f1 (IString name) of
                              None \<Rightarrow> (INil, log_error ''error loading '' [] f1)
                            | Some v \<Rightarrow> (v, f1));
                         f3 = f2\<lparr>mapping := (mapping f2)(ident := None)\<rparr>;
                         f4 = f3\<lparr>reverse := (reverse f3)(IString name := None)\<rparr>
                     in (None, f4)))
           | _ \<Rightarrow> (Some (ErrorString ''error casting key''), f)))"




text \<open>The two views agree: an entry in one is the mirrored entry in the other.\<close>

definition consistent :: "'k FIM \<Rightarrow> bool" where
  "consistent f = (\<forall>k p. (mapping f k = Some p) = (reverse f p = Some k))"



text \<open>Every path in the table is one of the given paths, stored with the inode number
  \<open>Stat\<close> gives for it.\<close>

definition keyed_by_stat :: "'k os \<Rightarrow> string list \<Rightarrow> 'k FIM \<Rightarrow> bool" where
  "keyed_by_stat os paths f =
     (\<forall>p k. reverse f p = Some k \<longrightarrow>
        (\<exists>name st. p = IString name \<and> name \<in> set paths \<and>
           Stat os name = Inr st \<and> k = IUint64 (Ino st)))"

section \<open>Event pipeline\<close>

text \<open>\<open>FIM.error\<close>: a send that drops the error when the channel is full.\<close>

definition FIM_error :: "error \<Rightarrow> 'k FIM \<Rightarrow> 'k FIM" where
  "FIM_error err f =
     (if length (Errors f) < chanSize then f\<lparr>Errors := Errors f @ [err]\<rparr> else f)"

text \<open>\<open>%v\<close> of an unsigned integer.\<close>

fun decimal :: "nat \<Rightarrow> string" where
  "decimal n =
     (if n < 10 then [char_of (48 + n)]
      else decimal (n div 10) @ [char_of (48 + n mod 10)])"

declare decimal.simps [simp del]

text \<open>The scanner loop of \<open>getCMDLine\<close>: the first non-empty line, its zero bytes
  replaced by spaces; the empty string when there is none.\<close>

fun first_line :: "string list \<Rightarrow> string" where
  "first_line [] = []"
| "first_line (line # rest) =
     (if length line > 0
      then map (\<lambda>c. if c = CHR 0x00 then CHR '' '' else c) line
      else first_line rest)"

definition getCMDLine :: "'k os \<Rightarrow> rawEvent \<Rightarrow> string" where
  "getCMDLine os e =
     (case ScanFile os (''/proc/'' @ decimal (unat (rawEvent.PID e)) @ ''/cmdline'') of
        Inl err \<Rightarrow> []
      | Inr lines \<Rightarrow> first_line lines)"

text \<open>The loop over \<open>e.Com\<close> in \<open>FIM.start\<close>: \<open>comLen\<close> starts at 0 and is set to the index
  of the first zero byte, where the loop breaks; with no zero byte it is never set.\<close>

fun comLen_loop :: "nat \<Rightarrow> byte list \<Rightarrow> nat" where
  "comLen_loop index [] = 0"
| "comLen_loop index (b # rest) =
     (if b = 0 then index else comLen_loop (Suc index) rest)"

definition bytes_string :: "byte list \<Rightarrow> string" where
  "bytes_string bs = map (\<lambda>b. char_of (unat b)) bs"

text \<open>The body of the decode loop of \<open>FIM.start\<close> for one buffer received from the
  kernel ring.\<close>

definition start_event :: "'k os \<Rightarrow> byte list \<Rightarrow> 'k FIM \<Rightarrow> 'k FIM" where
  "start_event os data f =
     (case decode_rawEvent data of
        Inl err \<Rightarrow>
          FIM_error (Errorf ''failed to decode received data %q: %w'' [ArgBytes data] (Some err)) f
      | Inr e \<Rightarrow>
          (let cmdline0 = getCMDLine os e;
               comLen = (if cmdline0 = [] then comLen_loop 0 (rawEvent.Com e) else 0);
               cmdline = (if cmdline0 = [] then bytes_string (take comLen (rawEvent.Com e))
                          else cmdline0)
           in case mapping f (IUint64 (rawEvent.Inode e)) of
                None \<Rightarrow>
                  (let f1 = log_error ''could not find key: %v in map''
                              [ArgUint64 (rawEvent.Inode e)] f;
                       (err, k) = DeleteElement os (rawEvent.Inode e) (RulesTable f1)
                   in kernel_call (KDelete (rawEvent.Inode e)) k f1)
              | Some path \<Rightarrow>
                  (let (spath, f1) =
                         (case path of
                            IString s \<Rightarrow> (s, f)
                          | _ \<Rightarrow> ([], log_error
                                 ''could not assert path into string key: %v in map''
                                 [ArgUint64 (rawEvent.Inode e)] f))
                   in f1\<lparr>Events := Events f1 @
                        [\<lparr>Event.Mode = rawEvent.Mode e, PID = rawEvent.PID e,
                          UID = rawEvent.UID e, Size = rawEvent.Size e,
                          Inode = rawEvent.Inode e, Device = rawEvent.Device e,
                          Com = cmdline, Path = spath\<rparr>]\<rparr>)))"

section \<open>consumers.go: the consumer engine\<close>

text \<open>A call either returns or panics (a nil pointer dereference in an implementation).\<close>

datatype 'a result = Panic | Return 'a

text \<open>The calls a \<open>BaseConsumer\<close> makes on its mutex, its \<open>ParserLoader\<close> and the \<open>State\<close>
  that \<open>Parse\<close> returns, in the order it makes them.\<close>

datatype call =
    CallLock
  | CallUnlock
  | CallLoad
  | CallParse
  | CallCreated
  | CallChanged
  | CallNotify string
  | CallSave
  | CallTeardown

text \<open>
  The interfaces \<open>ParserLoader\<close> and \<open>State\<close>, as operations on the state \<open>'s\<close> of the
  objects behind them (in both implementations of the package, \<open>Parse\<close> returns its own
  receiver as the \<open>State\<close>). \<open>Load\<close> and \<open>Save\<close> are applied to the consumer's \<open>AgentDB\<close>,
  which is part of \<open>'s\<close>.
\<close>

record 's ParserLoader =
  Load :: "'s \<Rightarrow> error option result \<times> 's"
  Save :: "'s \<Rightarrow> error option result \<times> 's"
  Parse :: "'s \<Rightarrow> error option result \<times> 's"
  Changed :: "'s \<Rightarrow> bool result \<times> 's"
  Created :: "'s \<Rightarrow> bool result \<times> 's"
  Notify :: "string \<Rightarrow> 's \<Rightarrow> unit result \<times> 's"
  Teardown :: "'s \<Rightarrow> error option result \<times> 's"

text \<open>A method call, recorded; sequencing, where a panic ends the function; a plain
  return.\<close>

definition invoke :: "call \<Rightarrow> ('s \<Rightarrow> 'a result \<times> 's) \<Rightarrow> 's \<times> call list \<Rightarrow> 'a result \<times> 's \<times> call list" where
  "invoke c m st = (case m (fst st) of (r, s') \<Rightarrow> (r, s', snd st @ [c]))"

definition and_then :: "('t \<Rightarrow> 'a result \<times> 't) \<Rightarrow> ('a \<Rightarrow> 't \<Rightarrow> 'b result \<times> 't) \<Rightarrow> 't \<Rightarrow> 'b result \<times> 't" where
  "and_then m k st = (case m st of (Panic, st') \<Rightarrow> (Panic, st') | (Return a, st') \<Rightarrow> k a st')"

definition ret :: "'a \<Rightarrow> 't \<Rightarrow> 'a result \<times> 't" where
  "ret a st = (Return a, st)"

text \<open>
  \<open>BaseConsumer.Init\<close>. The \<open>err\<close> of the last line of the Go function is the variable
  declared by \<open>state, err := bc.Parse()\<close>: the \<open>err\<close> of \<open>if err := state.Teardown(); ...\<close>
  is local to that statement.
\<close>

definition Init :: "'s ParserLoader \<Rightarrow> 's \<times> call list \<Rightarrow> error option result \<times> 's \<times> call list" where
  "Init bc =
     and_then (invoke CallLoad (Load bc)) (\<lambda>err_load.
       if err_load \<noteq> None then ret err_load
       else and_then (invoke CallParse (Parse bc)) (\<lambda>err.
         if err \<noteq> None then ret err
         else and_then (invoke CallCreated (Created bc)) (\<lambda>created.
           and_then (if \<not> created then invoke CallChanged (Changed bc) else ret False) (\<lambda>changed.
             and_then (if changed then invoke (CallNotify ''baseInit'') (Notify bc ''baseInit'')
                       else ret ()) (\<lambda>_.
               and_then (invoke CallSave (Save bc)) (\<lambda>err_save.
                 if err_save \<noteq> None then ret err_save
                 else and_then (invoke CallTeardown (Teardown bc)) (\<lambda>err_teardown.
                   if err_teardown = None \<or> err_teardown = Some ErrReload then ret None
                   else ret err)))))))"

text \<open>\<open>BaseConsumer.Consume\<close>: the body runs between \<open>bc.Lock()\<close> and the deferred
  \<open>bc.Unlock()\<close>, which also runs when the body panics.\<close>

definition Consume_body :: "'s ParserLoader \<Rightarrow> Event \<Rightarrow> 's \<times> call list \<Rightarrow> error option result \<times> 's \<times> call list" where
  "Consume_body bc e =
     and_then (invoke CallParse (Parse bc)) (\<lambda>err.
       if err \<noteq> None then ret err
       else and_then (invoke CallChanged (Changed bc)) (\<lambda>changed.
         if \<not> changed then invoke CallTeardown (Teardown bc)
         else and_then (invoke (CallNotify (Event.Com e)) (Notify bc (Event.Com e))) (\<lambda>_.
           and_then (invoke CallSave (Save bc)) (\<lambda>err_save.
             if err_save \<noteq> None then ret err_save
             else invoke CallTeardown (Teardown bc)))))"

definition Consume :: "'s ParserLoader \<Rightarrow> Event \<Rightarrow> 's \<times> call list \<Rightarrow> error option result \<times> 's \<times> call list" where
  "Consume bc e st =
     (case Consume_body bc e (fst st, snd st @ [CallLock]) of
        (r, s', tr) \<Rightarrow> (r, s', tr @ [CallUnlock]))"

text \<open>The calls made in a run.\<close>

definition trace :: "'a \<times> 's \<times> call list \<Rightarrow> call list" where
  "trace r = snd (snd r)"

text \<open>The actors \<open>Notify\<close> was called with, in order.\<close>

fun notified :: "call list \<Rightarrow> string list" where
  "notified [] = []"
| "notified (CallNotify actor # cs) = actor # notified cs"
| "notified (c # cs) = notified cs"

section \<open>consumers.go: UsersState\<close>

text \<open>Modelled from the spec: \<open>ArrayEqual\<close> is not among the sources; the include-lists
  are equal when they do not differ textually.\<close>

definition ArrayEqual :: "string list \<Rightarrow> string list \<Rightarrow> bool" where
  "ArrayEqual a b = (a = b)"

text \<open>A snapshot; \<open>'u\<close> is the type of a user record and \<open>Users\<close> a collection of them.\<close>

record 'u usersState =
  users :: "'u list"
  "includes" :: "string list"

text \<open>
  \<open>UsersState\<close>: \<open>current\<close> and \<open>next\<close> are pointers, \<open>None\<close> when nil. \<open>Warned\<close> is what
  \<open>Notify\<close> has logged: the process name, the next users, the added and the deleted ones.
  \<open>Saved\<close> is the user set last handed to \<open>SaveUsers\<close> with success.
\<close>

record 'u UsersState =
  current :: "'u usersState option"
  "next" :: "'u usersState option"
  Warned :: "(string \<times> 'u list \<times> 'u list \<times> 'u list) list"
  Saved :: "'u list option"

text \<open>
  What \<open>UsersState\<close> calls and the sources do not hold, taken as parameters: the result
  of \<open>UsersListener.parse\<close> (users, includes, error), \<open>userDiff\<close> (added, deleted), the
  result of \<open>AgentDB.LoadUsers\<close>, and the error of \<open>AgentDB.SaveUsers\<close>.
\<close>

record 'u users_env =
  parse :: "'u list \<times> string list \<times> error option"
  userDiff :: "'u list \<Rightarrow> 'u list \<Rightarrow> 'u list \<times> 'u list"
  LoadUsers :: "'u list \<times> error option"
  SaveUsers :: "'u list \<Rightarrow> error option"

definition UsersState_Parse :: "'u users_env \<Rightarrow> 'u UsersState \<Rightarrow> error option result \<times> 'u UsersState" where
  "UsersState_Parse env us =
     (case parse env of
        (us_users, us_includes, Some err) \<Rightarrow> (Return (Some err), us)
      | (us_users, us_includes, None) \<Rightarrow>
          (Return None, us\<lparr>next := Some \<lparr>users = us_users, includes = us_includes\<rparr>\<rparr>))"

definition UsersState_Changed :: "'u users_env \<Rightarrow> 'u UsersState \<Rightarrow> bool result \<times> 'u UsersState" where
  "UsersState_Changed env us =
     (case (current us, next us) of
        (Some c, Some n) \<Rightarrow>
          (case userDiff env (users c) (users n) of
             (add, del) \<Rightarrow> (Return (length add \<noteq> 0 \<or> length del \<noteq> 0), us))
      | _ \<Rightarrow> (Panic, us))"

definition UsersState_Created :: "'u UsersState \<Rightarrow> bool result \<times> 'u UsersState" where
  "UsersState_Created us =
     (case current us of
        Some c \<Rightarrow> (Return (length (users c) = 0), us)
      | None \<Rightarrow> (Panic, us))"

definition UsersState_Notify :: "'u users_env \<Rightarrow> string \<Rightarrow> 'u UsersState \<Rightarrow> unit result \<times> 'u UsersState" where
  "UsersState_Notify env cmd us =
     (case (current us, next us) of
        (Some c, Some n) \<Rightarrow>
          (case userDiff env (users c) (users n) of
             (add, del) \<Rightarrow> (Return (), us\<lparr>Warned := Warned us @ [(cmd, users n, add, del)]\<rparr>))
      | _ \<Rightarrow> (Panic, us))"

text \<open>\<open>reload\<close>; the debug line of its second branch is left out.\<close>

definition reload :: "'u UsersState \<Rightarrow> error option result \<times> 'u UsersState" where
  "reload us =
     (case (current us, next us) of
        (Some c, Some n) \<Rightarrow>
          (if ArrayEqual (includes c) (includes n) then (Return None, us)
           else (Return (Some ErrReload), us))
      | _ \<Rightarrow> (Panic, us))"

definition UsersState_Teardown :: "'u UsersState \<Rightarrow> error option result \<times> 'u UsersState" where
  "UsersState_Teardown us = reload (us\<lparr>current := next us\<rparr>)"

definition UsersState_Save :: "'u users_env \<Rightarrow> 'u UsersState \<Rightarrow> error option result \<times> 'u UsersState" where
  "UsersState_Save env us =
     (case next us of
        None \<Rightarrow> (Panic, us)
      | Some n \<Rightarrow>
          (case SaveUsers env (users n) of
             None \<Rightarrow> (Return None, us\<lparr>Saved := Some (users n)\<rparr>)
           | Some err \<Rightarrow> (Return (Some err), us)))"

definition UsersState_Load :: "'u users_env \<Rightarrow> 'u UsersState \<Rightarrow> error option result \<times> 'u UsersState" where
  "UsersState_Load env us =
     (case LoadUsers env of
        (db_users, Some err) \<Rightarrow> (Return (Some err), us)
      | (db_users, None) \<Rightarrow>
          (Return None, us\<lparr>current := Some \<lparr>users = db_users, includes = []\<rparr>\<rparr>))"

text \<open>\<open>UsersState\<close> as the \<open>ParserLoader\<close> of a \<open>BaseConsumer\<close>.\<close>

definition UsersState_consumer :: "'u users_env \<Rightarrow> 'u UsersState ParserLoader" where
  "UsersState_consumer env =
     \<lparr>Load = UsersState_Load env,
      Save = UsersState_Save env,
      Parse = UsersState_Parse env,
      Changed = UsersState_Changed env,
      Created = UsersState_Created,
      Notify = UsersState_Notify env,
      Teardown = UsersState_Teardown\<rparr>"

section \<open>Example collaborators\<close>

text \<open>The \<open>FIM\<close> that \<open>InitFIM\<close> builds on a loaded module whose rules table is \<open>k\<close>: empty
  maps, empty channels.\<close>

definition new_FIM :: "'k \<Rightarrow> 'k FIM" where
  "new_FIM k =
     \<lparr>mapping = Map.empty, reverse = Map.empty, RulesTable = k,
      Events = [], Errors = [], Logger = [], Calls = []\<rparr>"

text \<open>A rules table as a kernel hash map keeps it: an update with \<open>bpfAny\<close> creates or
  overwrites the entry, a delete of an absent key fails with \<open>ENOENT\<close>.\<close>

definition hash_update :: "64 word \<Rightarrow> int \<Rightarrow> 64 word \<Rightarrow> (64 word \<times> int) list \<Rightarrow> error option \<times> (64 word \<times> int) list" where
  "hash_update key v flags tbl = (None, (key, v) # filter (\<lambda>kv. fst kv \<noteq> key) tbl)"

definition hash_delete :: "64 word \<Rightarrow> (64 word \<times> int) list \<Rightarrow> error option \<times> (64 word \<times> int) list" where
  "hash_delete key tbl =
     (if map_of tbl key = None then (Some (Errno 2), tbl)
      else (None, filter (\<lambda>kv. fst kv \<noteq> key) tbl))"

text \<open>A file system with two watched files on one device, and one process.\<close>

definition example_stat :: "string \<Rightarrow> error + Stat_t" where
  "example_stat name =
     (if name = ''/etc/passwd'' then Inr \<lparr>Dev = 1, Ino = 7\<rparr>
      else if name = ''/etc/shadow'' then Inr \<lparr>Dev = 1, Ino = 9\<rparr>
      else Inl (Errno 2))"

definition example_scan :: "string \<Rightarrow> error + string list" where
  "example_scan name =
     (if name = ''/proc/1/cmdline'' then Inr [''/sbin/init''] else Inl (Errno 2))"

definition example_os :: "(64 word \<times> int) list os" where
  "example_os =
     \<lparr>Stat = example_stat, UpdateElement = hash_update, DeleteElement = hash_delete,
      ScanFile = example_scan\<rparr>"

text \<open>The same, with a second device mounted: a file there has the inode number of
  \<open>/etc/passwd\<close>.\<close>

definition two_device_stat :: "string \<Rightarrow> error + Stat_t" where
  "two_device_stat name =
     (if name = ''/mnt/passwd'' then Inr \<lparr>Dev = 2, Ino = 7\<rparr> else example_stat name)"

definition two_device_os :: "(64 word \<times> int) list os" where
  "two_device_os = example_os\<lparr>Stat := two_device_stat\<rparr>"

text \<open>The same as \<open>example_os\<close>, with a kernel that refuses every delete (\<open>EPERM\<close>).\<close>

definition refused_delete :: "64 word \<Rightarrow> (64 word \<times> int) list \<Rightarrow> error option \<times> (64 word \<times> int) list" where
  "refused_delete key tbl = (Some (Errno 1), tbl)"

definition refusing_os :: "(64 word \<times> int) list os" where
  "refusing_os = example_os\<lparr>DeleteElement := refused_delete\<rparr>"

text \<open>A raw event of process 4242 on inode 7, its command name sixteen letters with no
  zero byte.\<close>

definition example_raw :: rawEvent where
  "example_raw =
     \<lparr>rawEvent.Mode = 1, PID = 4242, UID = 1000, Size = 12, Inode = 7, Device = 1,
      Com = replicate 16 0x41\<rparr>"

text \<open>Users as names; \<open>userDiff\<close> as the set difference in both directions.\<close>

definition name_diff :: "string list \<Rightarrow> string list \<Rightarrow> string list \<times> string list" where
  "name_diff cur new = (filter (\<lambda>u. u \<notin> set cur) new, filter (\<lambda>u. u \<notin> set new) cur)"

text \<open>A first run: the store is empty and the password file holds alice.\<close>

definition first_run :: "string users_env" where
  "first_run =
     \<lparr>parse = ([''alice''], [''/home/alice/.ssh''], None),
      userDiff = name_diff,
      LoadUsers = ([], None),
      SaveUsers = (\<lambda>us. None)\<rparr>"

text \<open>A later start: the store holds bob, the password file now holds alice.\<close>

definition later_run :: "string users_env" where
  "later_run = first_run\<lparr>LoadUsers := ([''bob''], None)\<rparr>"

text \<open>A start where nothing changed since the store was written.\<close>

definition quiet_run :: "string users_env" where
  "quiet_run = first_run\<lparr>LoadUsers := ([''alice''], None)\<rparr>"

definition empty_UsersState :: "string UsersState" where
  "empty_UsersState = \<lparr>current = None, next = None, Warned = [], Saved = None\<rparr>"

text \<open>A \<open>UsersState\<close> whose parsed snapshot has another include-list than the current
  one.\<close>

definition moved_UsersState :: "string UsersState" where
  "moved_UsersState =
     \<lparr>current = Some \<lparr>users = [''alice''], includes = [''/home/alice/.ssh'']\<rparr>,
      next = Some \<lparr>users = [''alice''], includes = [''/srv/alice/.ssh'']\<rparr>,
      Warned = [], Saved = None\<rparr>"

text \<open>A state whose \<open>Teardown\<close> fails with an error of its own; everything else
  succeeds and nothing changes.\<close>

definition failing_teardown :: "unit ParserLoader" where
  "failing_teardown =
     \<lparr>Load = (\<lambda>s. (Return None, s)),
      Save = (\<lambda>s. (Return None, s)),
      Parse = (\<lambda>s. (Return None, s)),
      Changed = (\<lambda>s. (Return False, s)),
      Created = (\<lambda>s. (Return False, s)),
      Notify = (\<lambda>actor s. (Return (), s)),
      Teardown = (\<lambda>s. (Return (Some (ErrorString ''teardown failed'')), s))\<rparr>"

text \<open>A \<open>UsersState\<close> as \<open>Load\<close> leaves it when the store holds alice: no include-list
  yet, nothing parsed.\<close>

definition loaded_UsersState :: "string UsersState" where
  "loaded_UsersState =
     \<lparr>current = Some \<lparr>users = [''alice''], includes = []\<rparr>,
      next = None, Warned = [], Saved = None\<rparr>"

text \<open>A state whose \<open>Teardown\<close> asks for a reload.\<close>

definition reloading_teardown :: "unit ParserLoader" where
  "reloading_teardown =
     failing_teardown\<lparr>Teardown := (\<lambda>s. (Return (Some ErrReload), s))\<rparr>"

definition example_event :: Event where
  "example_event =
     \<lparr>Event.Mode = 1, PID = 4242, UID = 1000, Size = 12, Inode = 7, Device = 1,
      Com = ''vipw'', Path = ''/etc/passwd''\<rparr>"

section \<open>Codec: round trip\<close>

lemma le_word_le_bytes: "le_word (le_bytes n w) = take_bit (8 * n) w"
proof (induction n arbitrary: w)
  case 0
  show ?case by simp
next
  case (Suc n)
  show ?case
    apply (simp add: Suc)
    apply (rule bit_word_eqI)
    apply (auto simp add: bit_simps)
    done
qed

lemma length_le_bytes: "length (le_bytes n w) = n"
  by (induction n arbitrary: w) simp_all

lemma le_word_le_bytes_full:
  "LENGTH('a::len) \<le> 8 * n \<Longrightarrow> le_word (le_bytes n (w :: 'a word)) = w"
  by (simp add: le_word_le_bytes take_bit_word_eq_self)

lemma length_Encode: "rawEvent_ok e \<Longrightarrow> length (fst (Encode e)) = 48"
  by (simp add: Encode_def rawEvent_ok_def taskComLen_def length_le_bytes)

lemma decode_Encode: "rawEvent_ok e \<Longrightarrow> decode_rawEvent (fst (Encode e)) = Inr e"
proof -
  assume ok: "rawEvent_ok e"
  have len: "length (fst (Encode e)) = 48" using ok by (rule length_Encode)
  then have ne: "fst (Encode e) \<noteq> []" by auto
  have fields:
    "\<lparr>rawEvent.Mode = le_word (take 4 (fst (Encode e))),
      PID = le_word (take 4 (drop 4 (fst (Encode e)))),
      UID = le_word (take 4 (drop 8 (fst (Encode e)))),
      Size = le_word (take 4 (drop 12 (fst (Encode e)))),
      Inode = le_word (take 8 (drop 16 (fst (Encode e)))),
      Device = le_word (take 8 (drop 24 (fst (Encode e)))),
      Com = take taskComLen (drop 32 (fst (Encode e)))\<rparr> = e"
    using ok
    by (simp add: Encode_def rawEvent_ok_def taskComLen_def length_le_bytes
        le_word_le_bytes_full)
  show ?thesis
    unfolding decode_rawEvent_def using len ne fields by simp
qed

text \<open>
  C4: every \<open>rawEvent\<close> (its \<open>Com\<close> of the sixteen bytes the Go type has) is encoded
  without error into a buffer of 48 bytes, laid out little-endian as mode(4) pid(4)
  uid(4) size(4) inode(8) device(8) comm(16), and decoding that buffer gives the event
  back.
\<close>

theorem Encode_decode_roundtrip:
  "rawEvent_ok e \<Longrightarrow>
     length (fst (Encode e)) = 48 \<and> snd (Encode e) = None \<and>
     decode_rawEvent (fst (Encode e)) = Inr e"
  by (simp add: length_Encode decode_Encode) (simp add: Encode_def)

theorem Encode_decode_roundtrip_witness:
  "rawEvent_ok example_raw \<and> length (fst (Encode example_raw)) = 48 \<and>
   snd (Encode example_raw) = None \<and>
   decode_rawEvent (fst (Encode example_raw)) = Inr example_raw"
  using Encode_decode_roundtrip [of example_raw]
  by (simp add: rawEvent_ok_def example_raw_def taskComLen_def)

section \<open>Watch table: Add\<close>

lemma Add_lookup_error: "Stat os name = Inl err \<Longrightarrow> Add os name f = (Some err, f)"
  by (simp add: Add_def NewKey_def)

lemma Add_calls:
  "Stat os name = Inr st \<Longrightarrow>
     Calls (snd (Add os name f)) = Calls f @ [KUpdate (Ino st) 1 bpfAny]"
  by (simp add: Add_def NewKey_def kernel_call_def Let_def split: prod.splits option.splits)

lemma Add_success:
  "Stat os name = Inr st \<Longrightarrow> fst (Add os name f) = None \<Longrightarrow>
     mapping (snd (Add os name f)) = (mapping f)(IUint64 (Ino st) \<mapsto> IString name) \<and>
     reverse (snd (Add os name f)) = (reverse f)(IString name \<mapsto> IUint64 (Ino st))"
  by (simp add: Add_def NewKey_def kernel_call_def Let_def split: prod.splits option.splits)

lemma Add_ignores_maps:
  "fst (Add os name (f\<lparr>mapping := m, reverse := r\<rparr>)) = fst (Add os name f)"
  by (simp add: Add_def kernel_call_def Let_def split: prod.splits option.splits)

text \<open>
  C3, as the code has it: the key \<open>Add\<close> registers for a path is the inode number that
  \<open>Stat\<close> reports for it, whatever the device; this key goes to the kernel table and,
  when the kernel accepts it, into both maps. When \<open>Stat\<close> fails, \<open>Add\<close> returns that
  error and the whole state (both maps, the kernel table, the calls made on it) is as
  before.
\<close>

theorem Add_key_is_inode:
  "(Stat os name = Inr st \<longrightarrow>
      fst (NewKey (Stat os) name) = Ino st \<and>
      Calls (snd (Add os name f)) = Calls f @ [KUpdate (Ino st) 1 bpfAny] \<and>
      (fst (Add os name f) = None \<longrightarrow>
         mapping (snd (Add os name f)) = (mapping f)(IUint64 (Ino st) \<mapsto> IString name) \<and>
         reverse (snd (Add os name f)) = (reverse f)(IString name \<mapsto> IUint64 (Ino st)))) \<and>
   (Stat os name = Inl err \<longrightarrow> Add os name f = (Some err, f))"
  by (simp add: Add_lookup_error Add_calls Add_success) (simp add: NewKey_def)

theorem Add_key_is_inode_witness:
  "Stat example_os ''/etc/passwd'' = Inr \<lparr>Dev = 1, Ino = 7\<rparr> \<and>
   fst (NewKey (Stat example_os) ''/etc/passwd'') = 7 \<and>
   Calls (snd (Add example_os ''/etc/passwd'' (new_FIM []))) = [KUpdate 7 1 0] \<and>
   fst (Add example_os ''/etc/passwd'' (new_FIM [])) = None \<and>
   mapping (snd (Add example_os ''/etc/passwd'' (new_FIM []))) (IUint64 7)
     = Some (IString ''/etc/passwd'') \<and>
   reverse (snd (Add example_os ''/etc/passwd'' (new_FIM []))) (IString ''/etc/passwd'')
     = Some (IUint64 7) \<and>
   Stat example_os ''/etc/group'' = Inl (Errno 2) \<and>
   Add example_os ''/etc/group'' (new_FIM []) = (Some (Errno 2), new_FIM [])"
  using
    Add_key_is_inode [of example_os "''/etc/passwd''" "\<lparr>Dev = 1, Ino = 7\<rparr>" "new_FIM []" "Errno 2"]
    Add_key_is_inode [of example_os "''/etc/group''" "\<lparr>Dev = 1, Ino = 7\<rparr>" "new_FIM []" "Errno 2"]
  by (simp add: example_os_def example_stat_def new_FIM_def bpfAny_def Add_def NewKey_def
      hash_update_def kernel_call_def)

text \<open>C3 as stated fails: two files with the same inode number on different devices
  are registered under the same key.\<close>

theorem Add_same_key_on_two_devices:
  "Stat two_device_os ''/etc/passwd'' = Inr \<lparr>Dev = 1, Ino = 7\<rparr> \<and>
   Stat two_device_os ''/mnt/passwd'' = Inr \<lparr>Dev = 2, Ino = 7\<rparr> \<and>
   fst (NewKey (Stat two_device_os) ''/etc/passwd'') =
     fst (NewKey (Stat two_device_os) ''/mnt/passwd'') \<and>
   Calls (snd (Add two_device_os ''/etc/passwd'' (new_FIM []))) = [KUpdate 7 1 0] \<and>
   Calls (snd (Add two_device_os ''/mnt/passwd'' (new_FIM []))) = [KUpdate 7 1 0]"
  by (simp add: two_device_os_def two_device_stat_def example_os_def example_stat_def
      new_FIM_def bpfAny_def Add_def NewKey_def hash_update_def kernel_call_def)

section \<open>Watch table: Remove\<close>

lemma Remove_delete_fails:
  "reverse f (IString name) = Some (IUint64 key) \<Longrightarrow>
   DeleteElement os key (RulesTable f) = (Some err, k) \<Longrightarrow>
   Remove os name f = (Some err, kernel_call (KDelete key) k f)"
  by (simp add: Remove_def)


text \<open>
  C2, as the code has it: when the kernel-side delete of an added path fails, \<open>Remove\<close>
  returns that error and leaves both maps as they were, the entry of the path
  included. A later \<open>Add\<close> is not blocked by what stays: its outcome does not depend on
  the two maps.
\<close>

theorem Remove_kernel_failure:
  "reverse f (IString name) = Some (IUint64 key) \<Longrightarrow>
   DeleteElement os key (RulesTable f) = (Some err, k) \<Longrightarrow>
     fst (Remove os name f) = Some err \<and>
     mapping (snd (Remove os name f)) = mapping f \<and>
     reverse (snd (Remove os name f)) = reverse f \<and>
     fst (Add os' name' (snd (Remove os name f))) =
       fst (Add os' name' ((snd (Remove os name f))\<lparr>mapping := m, reverse := r\<rparr>))"
  by (simp add: Remove_delete_fails Add_ignores_maps) (simp add: kernel_call_def)

theorem Remove_kernel_failure_witness:
  "reverse (snd (Add example_os ''/etc/passwd'' (new_FIM []))) (IString ''/etc/passwd'')
     = Some (IUint64 7) \<and>
   DeleteElement refusing_os 7 (RulesTable (snd (Add example_os ''/etc/passwd'' (new_FIM []))))
     = (Some (Errno 1), [(7, 1)]) \<and>
   fst (Remove refusing_os ''/etc/passwd'' (snd (Add example_os ''/etc/passwd'' (new_FIM []))))
     = Some (Errno 1) \<and>
   mapping (snd (Remove refusing_os ''/etc/passwd''
                  (snd (Add example_os ''/etc/passwd'' (new_FIM [])))))
     = mapping (snd (Add example_os ''/etc/passwd'' (new_FIM []))) \<and>
   reverse (snd (Remove refusing_os ''/etc/passwd''
                  (snd (Add example_os ''/etc/passwd'' (new_FIM [])))))
     = reverse (snd (Add example_os ''/etc/passwd'' (new_FIM []))) \<and>
   fst (Add refusing_os ''/etc/passwd''
         (snd (Remove refusing_os ''/etc/passwd''
                (snd (Add example_os ''/etc/passwd'' (new_FIM [])))))) = None"
  using Remove_kernel_failure
    [of "snd (Add example_os ''/etc/passwd'' (new_FIM []))" "''/etc/passwd''" 7
      refusing_os "Errno 1" "[(7, 1)]" refusing_os "''/etc/passwd''" Map.empty Map.empty]
  by (simp add: refusing_os_def refused_delete_def example_os_def example_stat_def new_FIM_def
      bpfAny_def Add_def NewKey_def hash_update_def kernel_call_def)

text \<open>C2 as stated fails: after a \<open>Remove\<close> whose kernel-side delete is refused, both
  entries of the path are still there.\<close>

theorem Remove_keeps_entries_on_failure:
  "reverse (snd (Add example_os ''/etc/passwd'' (new_FIM []))) (IString ''/etc/passwd'')
     = Some (IUint64 7) \<and>
   fst (Remove refusing_os ''/etc/passwd'' (snd (Add example_os ''/etc/passwd'' (new_FIM []))))
     = Some (Errno 1) \<and>
   mapping (snd (Remove refusing_os ''/etc/passwd''
                  (snd (Add example_os ''/etc/passwd'' (new_FIM []))))) (IUint64 7)
     = Some (IString ''/etc/passwd'') \<and>
   reverse (snd (Remove refusing_os ''/etc/passwd''
                  (snd (Add example_os ''/etc/passwd'' (new_FIM []))))) (IString ''/etc/passwd'')
     = Some (IUint64 7)"
  by (simp add: refusing_os_def refused_delete_def example_os_def example_stat_def new_FIM_def
      bpfAny_def Add_def NewKey_def Remove_def hash_update_def kernel_call_def)

section \<open>Watch table: the two views\<close>



lemma inv_kernel_call [simp]:
  "consistent (kernel_call c k f) = consistent f"
  "keyed_by_stat os paths (kernel_call c k f) = keyed_by_stat os paths f"
  by (simp_all add: consistent_def keyed_by_stat_def kernel_call_def)









section \<open>Event pipeline: one record\<close>

lemma start_event_stale:
  "decode_rawEvent data = Inr e \<Longrightarrow> mapping f (IUint64 (rawEvent.Inode e)) = None \<Longrightarrow>
   start_event os data f =
     kernel_call (KDelete (rawEvent.Inode e))
       (snd (DeleteElement os (rawEvent.Inode e) (RulesTable f)))
       (log_error ''could not find key: %v in map'' [ArgUint64 (rawEvent.Inode e)] f)"
  by (simp add: start_event_def Let_def log_error_def split: prod.splits)

lemma example_raw_decodes: "decode_rawEvent (fst (Encode example_raw)) = Inr example_raw"
  by (rule decode_Encode) (simp add: rawEvent_ok_def example_raw_def taskComLen_def)

text \<open>
  C6: when a buffer decodes to an event whose inode is no key of the key-to-path view,
  the record makes one call on the kernel table, the delete of that inode; one error
  line naming the key is logged; no \<open>Event\<close> is sent (and nothing is put on the
  \<open>Errors\<close> channel).
\<close>

theorem stale_key_purged:
  "decode_rawEvent data = Inr e \<Longrightarrow> mapping f (IUint64 (rawEvent.Inode e)) = None \<Longrightarrow>
     Calls (start_event os data f) = Calls f @ [KDelete (rawEvent.Inode e)] \<and>
     Logger (start_event os data f) =
       Logger f @ [LogError ''could not find key: %v in map'' [ArgUint64 (rawEvent.Inode e)]] \<and>
     Events (start_event os data f) = Events f \<and>
     Errors (start_event os data f) = Errors f"
  by (simp add: start_event_stale kernel_call_def log_error_def)

theorem stale_key_purged_witness:
  "decode_rawEvent (fst (Encode example_raw)) = Inr example_raw \<and>
   mapping (new_FIM []) (IUint64 (rawEvent.Inode example_raw)) = None \<and>
   Calls (start_event example_os (fst (Encode example_raw)) (new_FIM [])) = [KDelete 7] \<and>
   Logger (start_event example_os (fst (Encode example_raw)) (new_FIM [])) =
     [LogError ''could not find key: %v in map'' [ArgUint64 7]] \<and>
   Events (start_event example_os (fst (Encode example_raw)) (new_FIM [])) = [] \<and>
   Errors (start_event example_os (fst (Encode example_raw)) (new_FIM [])) = []"
proof -
  have absent: "mapping (new_FIM []) (IUint64 (rawEvent.Inode example_raw)) = None"
    by (simp add: new_FIM_def)
  show ?thesis
    using stale_key_purged [OF example_raw_decodes absent, of example_os] example_raw_decodes
    by (simp add: new_FIM_def example_raw_def)
qed

lemma comLen_loop_no_zero: "0 \<notin> set bs \<Longrightarrow> comLen_loop i bs = 0"
  by (induction bs arbitrary: i) auto

lemma getCMDLine_example: "getCMDLine example_os example_raw = []"
  by (simp add: getCMDLine_def example_os_def example_scan_def example_raw_def decimal.simps)

text \<open>
  C10: when a buffer decodes to an event whose process has no readable command line
  (\<open>getCMDLine\<close> gives the empty string), whose \<open>Com\<close> has no zero byte and whose inode
  is in the table, the record sends one \<open>Event\<close>, and its \<open>Com\<close> is empty: \<open>comLen\<close>
  stays 0.
\<close>

theorem empty_Com_without_zero_byte:
  "decode_rawEvent data = Inr e \<Longrightarrow> getCMDLine os e = [] \<Longrightarrow>
   0 \<notin> set (rawEvent.Com e) \<Longrightarrow> mapping f (IUint64 (rawEvent.Inode e)) = Some path \<Longrightarrow>
     Events (start_event os data f) =
       Events f @
       [\<lparr>Event.Mode = rawEvent.Mode e, PID = rawEvent.PID e, UID = rawEvent.UID e,
         Size = rawEvent.Size e, Inode = rawEvent.Inode e, Device = rawEvent.Device e,
         Com = [], Path = (case path of IString s \<Rightarrow> s | _ \<Rightarrow> [])\<rparr>]"
  by (simp add: start_event_def Let_def comLen_loop_no_zero bytes_string_def log_error_def
      split: iface.splits)

theorem empty_Com_without_zero_byte_witness:
  "decode_rawEvent (fst (Encode example_raw)) = Inr example_raw \<and>
   getCMDLine example_os example_raw = [] \<and>
   0 \<notin> set (rawEvent.Com example_raw) \<and>
   mapping (snd (Add example_os ''/etc/passwd'' (new_FIM [])))
     (IUint64 (rawEvent.Inode example_raw)) = Some (IString ''/etc/passwd'') \<and>
   Events (start_event example_os (fst (Encode example_raw))
            (snd (Add example_os ''/etc/passwd'' (new_FIM [])))) =
     [\<lparr>Event.Mode = 1, PID = 4242, UID = 1000, Size = 12, Inode = 7, Device = 1,
       Com = [], Path = ''/etc/passwd''\<rparr>]"
proof -
  have nz: "0 \<notin> set (rawEvent.Com example_raw)"
    by (simp add: example_raw_def)
  have found: "mapping (snd (Add example_os ''/etc/passwd'' (new_FIM [])))
      (IUint64 (rawEvent.Inode example_raw)) = Some (IString ''/etc/passwd'')"
    by (simp add: example_os_def example_stat_def new_FIM_def example_raw_def
        bpfAny_def Add_def NewKey_def hash_update_def kernel_call_def)
  have ev: "Events (snd (Add example_os ''/etc/passwd'' (new_FIM []))) = []"
    by (simp add: example_os_def example_stat_def new_FIM_def
        bpfAny_def Add_def NewKey_def hash_update_def kernel_call_def)
  show ?thesis
    using empty_Com_without_zero_byte [OF example_raw_decodes getCMDLine_example nz found]
      example_raw_decodes nz found ev
    by (simp add: getCMDLine_example) (simp add: example_raw_def)
qed

section \<open>UsersState: Teardown\<close>

text \<open>\<open>Teardown\<close> overwrites \<open>current\<close> with \<open>next\<close> before \<open>reload\<close> compares the two:
  the comparison is of a snapshot with itself.\<close>

lemma Teardown_commits:
  "next us = Some n \<Longrightarrow> UsersState_Teardown us = (Return None, us\<lparr>current := Some n\<rparr>)"
  by (simp add: UsersState_Teardown_def reload_def ArrayEqual_def)

lemma Teardown_never_reloads:
  "fst (UsersState_Teardown us) \<noteq> Return (Some ErrReload)"
  by (simp add: UsersState_Teardown_def reload_def ArrayEqual_def split: option.splits)

text \<open>
  C1 asks \<open>Teardown\<close> for \<open>ErrReload\<close> when the include-list of the new snapshot
  differs from the one that was current before the call. The code, at a state whose
  two include-lists differ: \<open>Teardown\<close> commits \<open>next\<close> to \<open>current\<close> and returns nil.
\<close>

theorem Teardown_moved_includes:
  "map_option includes (current moved_UsersState) = Some [''/home/alice/.ssh''] \<and>
   map_option includes (next moved_UsersState) = Some [''/srv/alice/.ssh''] \<and>
   UsersState_Teardown moved_UsersState =
     (Return None, moved_UsersState\<lparr>current := next moved_UsersState\<rparr>)"
  by (simp add: UsersState_Teardown_def reload_def ArrayEqual_def moved_UsersState_def)

section \<open>BaseConsumer: Init\<close>

lemma invoke_eq: "invoke c m (s, tr) = (fst (m s), snd (m s), tr @ [c])"
  by (simp add: invoke_def split: prod.splits)

lemma Init_Load_error:
  "Load bc s = (Return (Some err), s1) \<Longrightarrow>
     Init bc (s, []) = (Return (Some err), s1, [CallLoad])"
  by (simp add: Init_def and_then_def invoke_eq ret_def)

lemma Init_Parse_error:
  "Load bc s = (Return None, s1) \<Longrightarrow> Parse bc s1 = (Return (Some err), s2) \<Longrightarrow>
     Init bc (s, []) = (Return (Some err), s2, [CallLoad, CallParse])"
  by (simp add: Init_def and_then_def invoke_eq ret_def)

text \<open>Once \<open>Teardown\<close> has been called, \<open>Init\<close> returns nil, whatever \<open>Teardown\<close>
  returned.\<close>

lemma Init_nil_after_Teardown:
  "Init bc (s, []) = (Return r, s', tr) \<Longrightarrow> CallTeardown \<in> set tr \<Longrightarrow> r = None"
  by (auto simp add: Init_def and_then_def invoke_eq ret_def
      split: result.splits prod.splits option.splits if_splits)

text \<open>
  C7: in \<open>Init\<close>, after \<open>Load\<close> and \<open>Parse\<close> have succeeded, \<open>Notify\<close> is called once,
  with the actor \<open>baseInit\<close>, when the state is not created and is changed, and is not
  called otherwise; when the state is created, \<open>Notify\<close> is not called, changed or
  not, and \<open>Save\<close> is called.
\<close>

theorem Init_notifies_unless_created:
  assumes "Load bc s = (Return None, s1)"
      and "Parse bc s1 = (Return None, s2)"
      and "Created bc s2 = (Return created, s3)"
  shows "notified (trace (Init bc (s, []))) =
           (if \<not> created \<and> fst (Changed bc s3) = Return True then [''baseInit''] else []) \<and>
         (created \<longrightarrow> CallSave \<in> set (trace (Init bc (s, []))))"
proof (cases created)
  case True
  obtain r5 s5 where sv: "Save bc s3 = (r5, s5)"
    by (cases "Save bc s3")
  obtain r6 s6 where td: "Teardown bc s5 = (r6, s6)"
    by (cases "Teardown bc s5")
  show ?thesis
    using assms True sv td
    by (auto simp add: Init_def and_then_def invoke_eq ret_def trace_def
        split: result.splits option.splits)
next
  case False
  obtain changed s4 where ch: "Changed bc s3 = (changed, s4)"
    by (cases "Changed bc s3")
  obtain r4 t4 where nt: "Notify bc ''baseInit'' s4 = (r4, t4)"
    by (cases "Notify bc ''baseInit'' s4")
  obtain r5 s5 where sv: "Save bc (if changed = Return True then t4 else s4) = (r5, s5)"
    by (cases "Save bc (if changed = Return True then t4 else s4)")
  obtain r6 s6 where td: "Teardown bc s5 = (r6, s6)"
    by (cases "Teardown bc s5")
  show ?thesis
    using assms False ch nt sv td
    by (auto simp add: Init_def and_then_def invoke_eq ret_def trace_def
        split: result.splits option.splits if_splits)
qed

theorem Init_notifies_unless_created_witness:
  "Load (UsersState_consumer first_run) empty_UsersState =
     (Return None, empty_UsersState\<lparr>current := Some \<lparr>users = [], includes = []\<rparr>\<rparr>) \<and>
   Parse (UsersState_consumer first_run)
       (empty_UsersState\<lparr>current := Some \<lparr>users = [], includes = []\<rparr>\<rparr>) =
     (Return None, \<lparr>current = Some \<lparr>users = [], includes = []\<rparr>,
                    next = Some \<lparr>users = [''alice''], includes = [''/home/alice/.ssh'']\<rparr>,
                    Warned = [], Saved = None\<rparr>) \<and>
   fst (Created (UsersState_consumer first_run)
         \<lparr>current = Some \<lparr>users = [], includes = []\<rparr>,
          next = Some \<lparr>users = [''alice''], includes = [''/home/alice/.ssh'']\<rparr>,
          Warned = [], Saved = None\<rparr>) = Return True \<and>
   fst (Changed (UsersState_consumer first_run)
         \<lparr>current = Some \<lparr>users = [], includes = []\<rparr>,
          next = Some \<lparr>users = [''alice''], includes = [''/home/alice/.ssh'']\<rparr>,
          Warned = [], Saved = None\<rparr>) = Return True \<and>
   notified (trace (Init (UsersState_consumer first_run) (empty_UsersState, []))) = [] \<and>
   CallSave \<in> set (trace (Init (UsersState_consumer first_run) (empty_UsersState, []))) \<and>
   notified (trace (Init (UsersState_consumer later_run) (empty_UsersState, []))) = [''baseInit''] \<and>
   notified (trace (Init (UsersState_consumer quiet_run) (empty_UsersState, []))) = []"
proof -
  let ?s1 = "empty_UsersState\<lparr>current := Some \<lparr>users = [], includes = []\<rparr>\<rparr>"
  let ?s2 = "\<lparr>current = Some \<lparr>users = [], includes = []\<rparr>,
              next = Some \<lparr>users = [''alice''], includes = [''/home/alice/.ssh'']\<rparr>,
              Warned = [], Saved = None :: string list option\<rparr>"
  let ?t1 = "empty_UsersState\<lparr>current := Some \<lparr>users = [''bob''], includes = []\<rparr>\<rparr>"
  let ?t2 = "\<lparr>current = Some \<lparr>users = [''bob''], includes = []\<rparr>,
              next = Some \<lparr>users = [''alice''], includes = [''/home/alice/.ssh'']\<rparr>,
              Warned = [], Saved = None :: string list option\<rparr>"
  let ?q1 = "empty_UsersState\<lparr>current := Some \<lparr>users = [''alice''], includes = []\<rparr>\<rparr>"
  let ?q2 = "\<lparr>current = Some \<lparr>users = [''alice''], includes = []\<rparr>,
              next = Some \<lparr>users = [''alice''], includes = [''/home/alice/.ssh'']\<rparr>,
              Warned = [], Saved = None :: string list option\<rparr>"
  have a1: "Load (UsersState_consumer first_run) empty_UsersState = (Return None, ?s1)"
    by (simp add: UsersState_consumer_def UsersState_Load_def first_run_def)
  have a2: "Parse (UsersState_consumer first_run) ?s1 = (Return None, ?s2)"
    by (simp add: UsersState_consumer_def UsersState_Parse_def first_run_def
        empty_UsersState_def)
  have a3: "Created (UsersState_consumer first_run) ?s2 = (Return True, ?s2)"
    by (simp add: UsersState_consumer_def UsersState_Created_def)
  have a4: "Changed (UsersState_consumer first_run) ?s2 = (Return True, ?s2)"
    by (simp add: UsersState_consumer_def UsersState_Changed_def first_run_def name_diff_def)
  have b1: "Load (UsersState_consumer later_run) empty_UsersState = (Return None, ?t1)"
    by (simp add: UsersState_consumer_def UsersState_Load_def first_run_def later_run_def)
  have b2: "Parse (UsersState_consumer later_run) ?t1 = (Return None, ?t2)"
    by (simp add: UsersState_consumer_def UsersState_Parse_def first_run_def later_run_def
        empty_UsersState_def)
  have b3: "Created (UsersState_consumer later_run) ?t2 = (Return False, ?t2)"
    by (simp add: UsersState_consumer_def UsersState_Created_def)
  have b4: "Changed (UsersState_consumer later_run) ?t2 = (Return True, ?t2)"
    by (simp add: UsersState_consumer_def UsersState_Changed_def first_run_def later_run_def
        name_diff_def)
  have c1: "Load (UsersState_consumer quiet_run) empty_UsersState = (Return None, ?q1)"
    by (simp add: UsersState_consumer_def UsersState_Load_def first_run_def quiet_run_def)
  have c2: "Parse (UsersState_consumer quiet_run) ?q1 = (Return None, ?q2)"
    by (simp add: UsersState_consumer_def UsersState_Parse_def first_run_def quiet_run_def
        empty_UsersState_def)
  have c3: "Created (UsersState_consumer quiet_run) ?q2 = (Return False, ?q2)"
    by (simp add: UsersState_consumer_def UsersState_Created_def)
  have c4: "Changed (UsersState_consumer quiet_run) ?q2 = (Return False, ?q2)"
    by (simp add: UsersState_consumer_def UsersState_Changed_def first_run_def quiet_run_def
        name_diff_def)
  show ?thesis
    using Init_notifies_unless_created [OF a1 a2 a3]
      Init_notifies_unless_created [OF b1 b2 b3]
      Init_notifies_unless_created [OF c1 c2 c3] a1 a2 a3 a4 b4 c4
    by simp
qed

text \<open>
  C8 asks \<open>Init\<close> to return the error of \<open>Teardown\<close> when it is neither nil nor
  \<open>ErrReload\<close>. The code, at a state whose \<open>Teardown\<close> fails with an error of its own:
  \<open>Init\<close> calls \<open>Teardown\<close> and returns nil.
\<close>

theorem Init_drops_teardown_error:
  "Teardown failing_teardown () = (Return (Some (ErrorString ''teardown failed'')), ()) \<and>
   Init failing_teardown ((), []) =
     (Return None, (),
      [CallLoad, CallParse, CallCreated, CallChanged, CallSave, CallTeardown])"
  by (simp add: failing_teardown_def Init_def and_then_def invoke_def ret_def)

section \<open>BaseConsumer: Consume\<close>

lemma Consume_body_unchanged:
  "Parse bc s = (Return None, s1) \<Longrightarrow> Changed bc s1 = (Return False, s2) \<Longrightarrow>
     Consume_body bc e (s, tr) =
       (fst (Teardown bc s2), snd (Teardown bc s2),
        tr @ [CallParse, CallChanged, CallTeardown])"
  by (simp add: Consume_body_def and_then_def invoke_eq ret_def)

lemma Consume_unchanged_UsersState:
  assumes "UsersState_Parse env us = (Return None, us1)"
      and "UsersState_Changed env us1 = (Return False, us2)"
  shows "Consume (UsersState_consumer env) e (us, []) =
           (Return None, us1\<lparr>current := next us1\<rparr>,
            [CallLock, CallParse, CallChanged, CallTeardown, CallUnlock]) \<and>
         next us1 = Some \<lparr>users = fst (parse env), includes = fst (snd (parse env))\<rparr>"
proof -
  have n: "next us1 = Some \<lparr>users = fst (parse env), includes = fst (snd (parse env))\<rparr>"
    using assms(1) by (auto simp add: UsersState_Parse_def split: prod.splits option.splits)
  have same: "us2 = us1"
    using assms(2)
    by (auto simp add: UsersState_Changed_def split: prod.splits option.splits)
  have "Consume_body (UsersState_consumer env) e (us, [CallLock]) =
          (fst (Teardown (UsersState_consumer env) us2),
           snd (Teardown (UsersState_consumer env) us2),
           [CallLock] @ [CallParse, CallChanged, CallTeardown])"
    using assms by (intro Consume_body_unchanged) (simp_all add: UsersState_consumer_def)
  then show ?thesis
    using n same by (simp add: Consume_def UsersState_consumer_def Teardown_commits)
qed

text \<open>
  C9: when \<open>Parse\<close> succeeds and the state is not changed, \<open>Consume\<close> calls, between
  lock and unlock, \<open>Parse\<close>, \<open>Changed\<close> and \<open>Teardown\<close> and nothing else (neither
  \<open>Notify\<close> nor \<open>Save\<close>), and what it returns is what \<open>Teardown\<close> returned, the state
  \<open>Teardown\<close> left included: a reload signal that \<open>Teardown\<close> returns reaches the
  caller. At a \<open>UsersState\<close>, on that path, the snapshot just parsed is committed: \<open>next\<close>
  is it, \<open>current\<close> is overwritten with it, and the result is that of
  \<open>UsersState.Teardown\<close>, which is nil.
\<close>

theorem Consume_unchanged:
  "(Parse bc s = (Return None, s1) \<longrightarrow> Changed bc s1 = (Return False, s2) \<longrightarrow>
      Consume bc e (s, []) =
        (fst (Teardown bc s2), snd (Teardown bc s2),
         [CallLock, CallParse, CallChanged, CallTeardown, CallUnlock])) \<and>
   (UsersState_Parse env us = (Return None, us1) \<longrightarrow>
    UsersState_Changed env us1 = (Return False, us2) \<longrightarrow>
      Consume (UsersState_consumer env) ev (us, []) =
        (fst (UsersState_Teardown us1), snd (UsersState_Teardown us1),
         [CallLock, CallParse, CallChanged, CallTeardown, CallUnlock]) \<and>
      fst (UsersState_Teardown us1) = Return None \<and>
      snd (UsersState_Teardown us1) = us1\<lparr>current := next us1\<rparr> \<and>
      next us1 = Some \<lparr>users = fst (parse env), includes = fst (snd (parse env))\<rparr>)"
proof (intro conjI impI)
  assume "Parse bc s = (Return None, s1)" and "Changed bc s1 = (Return False, s2)"
  then show "Consume bc e (s, []) =
        (fst (Teardown bc s2), snd (Teardown bc s2),
         [CallLock, CallParse, CallChanged, CallTeardown, CallUnlock])"
    by (simp add: Consume_def Consume_body_unchanged)
next
  assume a: "UsersState_Parse env us = (Return None, us1)"
    and b: "UsersState_Changed env us1 = (Return False, us2)"
  note u = Consume_unchanged_UsersState [OF a b, of ev]
  have t: "UsersState_Teardown us1 = (Return None, us1\<lparr>current := next us1\<rparr>)"
    using u by (simp add: Teardown_commits)
  show "Consume (UsersState_consumer env) ev (us, []) =
        (fst (UsersState_Teardown us1), snd (UsersState_Teardown us1),
         [CallLock, CallParse, CallChanged, CallTeardown, CallUnlock])"
    using u t by simp
  show "fst (UsersState_Teardown us1) = Return None" using t by simp
  show "snd (UsersState_Teardown us1) = us1\<lparr>current := next us1\<rparr>" using t by simp
  show "next us1 = Some \<lparr>users = fst (parse env), includes = fst (snd (parse env))\<rparr>"
    using u by simp
qed

theorem Consume_unchanged_witness:
  "Parse reloading_teardown () = (Return None, ()) \<and>
   Changed reloading_teardown () = (Return False, ()) \<and>
   Consume reloading_teardown example_event ((), []) =
     (Return (Some ErrReload), (),
      [CallLock, CallParse, CallChanged, CallTeardown, CallUnlock]) \<and>
   UsersState_Parse quiet_run loaded_UsersState =
     (Return None,
      \<lparr>current = Some \<lparr>users = [''alice''], includes = []\<rparr>,
       next = Some \<lparr>users = [''alice''], includes = [''/home/alice/.ssh'']\<rparr>,
       Warned = [], Saved = None\<rparr>) \<and>
   UsersState_Changed quiet_run
      \<lparr>current = Some \<lparr>users = [''alice''], includes = []\<rparr>,
       next = Some \<lparr>users = [''alice''], includes = [''/home/alice/.ssh'']\<rparr>,
       Warned = [], Saved = None\<rparr> =
     (Return False,
      \<lparr>current = Some \<lparr>users = [''alice''], includes = []\<rparr>,
       next = Some \<lparr>users = [''alice''], includes = [''/home/alice/.ssh'']\<rparr>,
       Warned = [], Saved = None\<rparr>) \<and>
   Consume (UsersState_consumer quiet_run) example_event (loaded_UsersState, []) =
     (Return None,
      \<lparr>current = Some \<lparr>users = [''alice''], includes = [''/home/alice/.ssh'']\<rparr>,
       next = Some \<lparr>users = [''alice''], includes = [''/home/alice/.ssh'']\<rparr>,
       Warned = [], Saved = None\<rparr>,
      [CallLock, CallParse, CallChanged, CallTeardown, CallUnlock])"
proof -
  let ?u1 = "\<lparr>current = Some \<lparr>users = [''alice''], includes = []\<rparr>,
              next = Some \<lparr>users = [''alice''], includes = [''/home/alice/.ssh'']\<rparr>,
              Warned = [], Saved = None :: string list option\<rparr>"
  have p: "Parse reloading_teardown () = (Return None, ())"
    by (simp add: reloading_teardown_def failing_teardown_def)
  have c: "Changed reloading_teardown () = (Return False, ())"
    by (simp add: reloading_teardown_def failing_teardown_def)
  have up: "UsersState_Parse quiet_run loaded_UsersState = (Return None, ?u1)"
    by (simp add: UsersState_Parse_def quiet_run_def first_run_def loaded_UsersState_def)
  have uc: "UsersState_Changed quiet_run ?u1 = (Return False, ?u1)"
    by (simp add: UsersState_Changed_def quiet_run_def first_run_def name_diff_def)
  note both = Consume_unchanged [of reloading_teardown "()" "()" "()" example_event
      quiet_run loaded_UsersState ?u1 ?u1 example_event]
  have g: "Consume reloading_teardown example_event ((), []) =
      (fst (Teardown reloading_teardown ()), snd (Teardown reloading_teardown ()),
       [CallLock, CallParse, CallChanged, CallTeardown, CallUnlock])"
    using both p c by blast
  have u: "Consume (UsersState_consumer quiet_run) example_event (loaded_UsersState, []) =
      (fst (UsersState_Teardown ?u1), snd (UsersState_Teardown ?u1),
       [CallLock, CallParse, CallChanged, CallTeardown, CallUnlock])"
    and r: "fst (UsersState_Teardown ?u1) = Return None"
    and t: "snd (UsersState_Teardown ?u1) = ?u1\<lparr>current := next ?u1\<rparr>"
    using both up uc by blast+
  have g': "Consume reloading_teardown example_event ((), []) =
      (Return (Some ErrReload), (),
       [CallLock, CallParse, CallChanged, CallTeardown, CallUnlock])"
    using g by (simp add: reloading_teardown_def failing_teardown_def)
  have u': "Consume (UsersState_consumer quiet_run) example_event (loaded_UsersState, []) =
     (Return None,
      \<lparr>current = Some \<lparr>users = [''alice''], includes = [''/home/alice/.ssh'']\<rparr>,
       next = Some \<lparr>users = [''alice''], includes = [''/home/alice/.ssh'']\<rparr>,
       Warned = [], Saved = None\<rparr>,
      [CallLock, CallParse, CallChanged, CallTeardown, CallUnlock])"
    using u r t by simp
  show ?thesis
    using p c g' up uc u' by simp
qed

end
